theory Spec2Isabelle
  imports Complex_Main "HOL-Library.Sublist"
begin

section \<open>JavaScript values, truthiness and errors\<close>

text \<open>
  The values that flow through the legal-query pipeline are the ones \<^verbatim>\<open>JSON.parse\<close> can
  produce, \<^verbatim>\<open>undefined\<close>, and the built-in members a plain object inherits from
  \<^verbatim>\<open>Object.prototype\<close> (a \<open>Native\<close> value carries the text the built-in prints as).
  An object is the list of its own properties in creation order, each key once.
  Strings are lists of code units below 256.
\<close>

datatype jsval =
    JUndefined
  | JNull
  | JBool bool
  | JNum real
  | is_JStr: JStr (str_of: string)
  | JArr "jsval list"
  | JObj "(string \<times> jsval) list"
  | Native string

text \<open>\<^verbatim>\<open>!v\<close> is \<open>\<not> truthy v\<close>; \<^verbatim>\<open>a || b\<close> is \<open>js_or a b\<close>.\<close>

fun truthy :: "jsval \<Rightarrow> bool" where
  "truthy JUndefined = False"
| "truthy JNull = False"
| "truthy (JBool b) = b"
| "truthy (JNum x) = (x \<noteq> 0)"
| "truthy (JStr s) = (s \<noteq> [])"
| "truthy (JArr vs) = True"
| "truthy (JObj kvs) = True"
| "truthy (Native n) = True"

definition js_or :: "jsval \<Rightarrow> jsval \<Rightarrow> jsval" where
  "js_or a b = (if truthy a then a else b)"

text \<open>
  An optional string argument (\<^verbatim>\<open>conversationId\<close>, \<^verbatim>\<open>userId\<close>, \<^verbatim>\<open>tone\<close>, ...):
  \<open>None\<close> is \<^verbatim>\<open>undefined\<close>. It is truthy when it is a non-empty string.
\<close>

fun given :: "string option \<Rightarrow> bool" where
  "given None = False"
| "given (Some s) = (s \<noteq> [])"

text \<open>
  \<^verbatim>\<open>APIError(message, status, isOperational = true, metadata = null)\<close> of
  \<^verbatim>\<open>utils/apiError.js\<close>; the service never passes the last two arguments. Every other
  exception (\<^verbatim>\<open>Error\<close>, \<^verbatim>\<open>TypeError\<close>, \<^verbatim>\<open>SyntaxError\<close>, a driver error) is an \<open>Error\<close>
  with its message: the code tells them apart only by \<^verbatim>\<open>instanceof APIError\<close>.
\<close>

datatype js_error =
    Error (message_of: string)
  | is_APIError: APIError (message_of: string) (status: nat)

abbreviation BAD_REQUEST :: nat where "BAD_REQUEST \<equiv> 400"
abbreviation NOT_FOUND :: nat where "NOT_FOUND \<equiv> 404"
abbreviation INTERNAL_SERVER_ERROR :: nat where "INTERNAL_SERVER_ERROR \<equiv> 500"

section \<open>Response post-processor\<close>

subsection \<open>String primitives\<close>

text \<open>
  \<^verbatim>\<open>String.prototype.trim\<close> strips white space and line terminators; below 256 these
  are TAB, LF, VT, FF, CR, SP and NBSP.
\<close>

definition is_space :: "char \<Rightarrow> bool" where
  "is_space c = (c \<in> set [CHR 0x09, CHR 0x0A, CHR 0x0B, CHR 0x0C, CHR 0x0D, CHR 0x20, CHR 0xA0])"

definition trim :: "string \<Rightarrow> string" where
  "trim s = rev (dropWhile is_space (rev (dropWhile is_space s)))"

text \<open>
  \<^verbatim>\<open>text.split(/\r?\n/)\<close>: a separator is LF, or CR immediately followed by LF; the
  pieces between separators are returned, empty ones included. The first argument is the
  current piece, reversed.
\<close>

fun split_from :: "string \<Rightarrow> string \<Rightarrow> string list" where
  "split_from piece [] = [rev piece]"
| "split_from piece (c # cs) =
     (if c = CHR 0x0A then rev piece # split_from [] cs
      else if c = CHR 0x0D \<and> cs \<noteq> [] \<and> hd cs = CHR 0x0A then rev piece # split_from [] (tl cs)
      else split_from (c # piece) cs)"

definition split_lines :: "string \<Rightarrow> string list" where
  "split_lines s = split_from [] s"

subsection \<open>extractSuggestions\<close>

definition actionVerbs :: "string list" where
  "actionVerbs =
     [''Consider'', ''Ensure'', ''Review'', ''Verify'', ''Confirm'', ''Add'',
      ''Remove'', ''Update'', ''Check'', ''Include'', ''Exclude'']"

text \<open>The inner loop over the verbs, with its \<^verbatim>\<open>break\<close>, and the outer loop over the lines.\<close>

fun scan_verbs :: "string \<Rightarrow> string list \<Rightarrow> string list \<Rightarrow> string list" where
  "scan_verbs line [] suggestions = suggestions"
| "scan_verbs line (verb # verbs) suggestions =
     (if prefix verb (trim line) then suggestions @ [trim line]
      else scan_verbs line verbs suggestions)"

fun scan_lines :: "string list \<Rightarrow> string list \<Rightarrow> string list" where
  "scan_lines [] suggestions = suggestions"
| "scan_lines (line # lines) suggestions =
     scan_lines lines (scan_verbs line actionVerbs suggestions)"

definition extractSuggestions :: "jsval \<Rightarrow> string list" where
  "extractSuggestions text =
     (if \<not> truthy text \<or> \<not> is_JStr text then []
      else scan_lines (split_lines (str_of text)) [])"

subsection \<open>extractReferences\<close>

text \<open>
  The three patterns of \<^verbatim>\<open>extractReferences\<close>. \<^verbatim>\<open>text.match(re)\<close> with a global
  pattern is the engine's: it is a parameter \<open>match\<close>, giving \<open>None\<close> for \<^verbatim>\<open>null\<close> (no
  match) and otherwise the matched substrings from left to right.
\<close>

datatype regexp = sectionRegex | caseRegex | actRegex

text \<open>\<^verbatim>\<open>[...new Set(references)]\<close>: elements in order of first insertion.\<close>

definition Set_add :: "'a list \<Rightarrow> 'a \<Rightarrow> 'a list" where
  "Set_add seen x = (if x \<in> set seen then seen else seen @ [x])"

definition new_Set :: "'a list \<Rightarrow> 'a list" where
  "new_Set xs = foldl Set_add [] xs"

definition or_empty :: "string list option \<Rightarrow> string list" where
  "or_empty m = (case m of None \<Rightarrow> [] | Some ms \<Rightarrow> ms)"

definition extractReferences :: "(regexp \<Rightarrow> string \<Rightarrow> string list option) \<Rightarrow> jsval \<Rightarrow> string list" where
  "extractReferences match text =
     (if \<not> truthy text \<or> \<not> is_JStr text then []
      else
        let sectionMatches = or_empty (match sectionRegex (str_of text));
            caseMatches = or_empty (match caseRegex (str_of text));
            actMatches = or_empty (match actRegex (str_of text));
            references = [] @ sectionMatches @ caseMatches @ actMatches
        in new_Set references)"

section \<open>Conversions and property access\<close>

text \<open>
  \<open>ToString\<close> is the conversion a template literal and a property key apply. Printing a
  number is the engine's (\<open>numstr\<close>). An array prints its elements joined by commas,
  \<^verbatim>\<open>null\<close> and \<^verbatim>\<open>undefined\<close> elements as nothing. A parsed object prints through the
  inherited \<^verbatim>\<open>toString\<close>, unless a property of its own hides that method with a value
  that cannot be called: then the conversion throws a \<^verbatim>\<open>TypeError\<close>.
\<close>

fun ToString :: "(real \<Rightarrow> string) \<Rightarrow> jsval \<Rightarrow> js_error + string"
  and join :: "(real \<Rightarrow> string) \<Rightarrow> jsval list \<Rightarrow> js_error + string" where
  "ToString numstr JUndefined = Inr ''undefined''"
| "ToString numstr JNull = Inr ''null''"
| "ToString numstr (JBool b) = Inr (if b then ''true'' else ''false'')"
| "ToString numstr (JNum x) = Inr (numstr x)"
| "ToString numstr (JStr s) = Inr s"
| "ToString numstr (JArr vs) = join numstr vs"
| "ToString numstr (JObj kvs) =
     (if ''toString'' \<in> set (map fst kvs)
      then Inl (Error ''Cannot convert object to primitive value'')
      else Inr ''[object Object]'')"
| "ToString numstr (Native n) = Inr n"
| "join numstr [] = Inr []"
| "join numstr (v # vs) =
     (case (if v = JUndefined \<or> v = JNull then Inr [] else ToString numstr v) of
        Inl e \<Rightarrow> Inl e
      | Inr s \<Rightarrow>
          (case join numstr vs of
             Inl e \<Rightarrow> Inl e
           | Inr r \<Rightarrow> Inr (if vs = [] then s else s @ '','' @ r)))"

text \<open>
  \<^verbatim>\<open>result.name\<close> for the names \<^verbatim>\<open>type\<close>, \<^verbatim>\<open>clauseType\<close> and \<^verbatim>\<open>confidence\<close>, which no
  built-in prototype defines: reading a property of \<^verbatim>\<open>null\<close> or \<^verbatim>\<open>undefined\<close> throws (a
  \<^verbatim>\<open>TypeError\<close>, with the message V8 gives it), an object gives its own property, every
  other value gives \<^verbatim>\<open>undefined\<close>.
\<close>

fun get_prop :: "jsval \<Rightarrow> string \<Rightarrow> js_error + jsval" where
  "get_prop JUndefined name =
     Inl (Error (''Cannot read properties of undefined (reading '' @ [CHR 0x27] @ name @ [CHR 0x27] @ '')''))"
| "get_prop JNull name =
     Inl (Error (''Cannot read properties of null (reading '' @ [CHR 0x27] @ name @ [CHR 0x27] @ '')''))"
| "get_prop (JObj kvs) name = Inr (case map_of kvs name of None \<Rightarrow> JUndefined | Some v \<Rightarrow> v)"
| "get_prop v name = Inr JUndefined"

section \<open>System-prompt builder\<close>

text \<open>
  The transient intent \<^verbatim>\<open>{type, clauseType, confidence}\<close>; a field that is \<open>JUndefined\<close>
  is absent or \<^verbatim>\<open>undefined\<close>.
\<close>

record intent =
  intent_type :: jsval
  clauseType :: jsval
  confidence :: jsval

definition toneInstruction :: "string \<Rightarrow> string" where
  "toneInstruction tone = '' Use a '' @ tone @ '' tone in your response.''"

definition prepareSystemMessage ::
  "(real \<Rightarrow> string) \<Rightarrow> intent \<Rightarrow> string option \<Rightarrow> string option \<Rightarrow> js_error + string" where
  "prepareSystemMessage numstr intent documentType tone =
     (let baseMessage = ''You are a legal document assistant. '' in
      case
        (if intent_type intent = JStr ''summarize'' then
           Inr (baseMessage @ ''Summarize the following text in a clear and concise manner.'')
         else if intent_type intent = JStr ''explain'' then
           Inr (baseMessage @ ''Explain the following legal terms and concepts in plain English.'')
         else if intent_type intent = JStr ''analyze'' then
           Inr (baseMessage @
             ''Analyze the following text for potential risks, missing clauses, and enforceability concerns.'')
         else if intent_type intent = JStr ''suggest'' then
           (case ToString numstr (clauseType intent) of
              Inl e \<Rightarrow> Inl e
            | Inr c \<Rightarrow>
                Inr (baseMessage @ ''Suggest appropriate '' @ c @ '' clauses based on the following context.''))
         else if intent_type intent = JStr ''adjust'' then
           Inr (baseMessage @ ''Rewrite the following text in a '' @
             (if given tone then the tone else ''formal'') @ '' tone while maintaining its legal meaning.'')
         else
           Inr (baseMessage @ ''Provide clear, accurate, and helpful legal information.''))
      of
        Inl e \<Rightarrow> Inl e
      | Inr baseMessage \<Rightarrow>
          (let baseMessage =
                 (if given documentType
                  then baseMessage @ '' The context is about a '' @ the documentType @ ''.''
                  else baseMessage);
               baseMessage =
                 (if given tone then baseMessage @ toneInstruction (the tone) else baseMessage)
           in Inr baseMessage))"

section \<open>Intent type to metadata type\<close>

definition typeMap :: "(string \<times> string) list" where
  "typeMap =
     [(''summarize'', ''summarize''),
      (''explain'', ''explain''),
      (''analyze'', ''analyze''),
      (''suggest'', ''suggest''),
      (''adjust'', ''adjust''),
      (''InformationRequest'', ''chat''),
      (''ClarificationRequest'', ''chat''),
      (''GeneralQuery'', ''chat''),
      (''LegalAdvice'', ''chat''),
      (''DocumentReview'', ''analyze''),
      (''RiskAssessment'', ''analyze''),
      (''ComplianceCheck'', ''analyze''),
      (''ClauseGeneration'', ''suggest''),
      (''ToneAdjustment'', ''adjust'')]"

text \<open>
  \<^verbatim>\<open>typeMap\<close> is an object literal, so \<^verbatim>\<open>typeMap[intentType]\<close> also finds the members it
  inherits from \<^verbatim>\<open>Object.prototype\<close>; each of them is truthy.
\<close>

definition Object_prototype :: "(string \<times> jsval) list" where
  "Object_prototype =
     [(''constructor'', Native ''function Object() { [native code] }''),
      (''__defineGetter__'', Native ''function __defineGetter__() { [native code] }''),
      (''__defineSetter__'', Native ''function __defineSetter__() { [native code] }''),
      (''hasOwnProperty'', Native ''function hasOwnProperty() { [native code] }''),
      (''__lookupGetter__'', Native ''function __lookupGetter__() { [native code] }''),
      (''__lookupSetter__'', Native ''function __lookupSetter__() { [native code] }''),
      (''isPrototypeOf'', Native ''function isPrototypeOf() { [native code] }''),
      (''propertyIsEnumerable'', Native ''function propertyIsEnumerable() { [native code] }''),
      (''toString'', Native ''function toString() { [native code] }''),
      (''valueOf'', Native ''function valueOf() { [native code] }''),
      (''__proto__'', Native ''[object Object]''),
      (''toLocaleString'', Native ''function toLocaleString() { [native code] }'')]"

definition mapIntentToMetadataType :: "(real \<Rightarrow> string) \<Rightarrow> jsval \<Rightarrow> js_error + jsval" where
  "mapIntentToMetadataType numstr intentType =
     (case ToString numstr intentType of
        Inl e \<Rightarrow> Inl e
      | Inr key \<Rightarrow>
          Inr (js_or
                 (case map_of typeMap key of
                    Some v \<Rightarrow> JStr v
                  | None \<Rightarrow> (case map_of Object_prototype key of Some b \<Rightarrow> b | None \<Rightarrow> JUndefined))
                 (JStr ''chat'')))"

section \<open>Conversations\<close>

text \<open>
  The metadata object of a message and of an answer:
  \<^verbatim>\<open>{type, documentType, tone, responseTime, references, suggestions, provider}\<close>; a field
  that is \<open>None\<close> (\<open>JUndefined\<close> for \<open>md_type\<close>) is absent.
\<close>

record metadata =
  md_type :: jsval
  md_documentType :: "string option"
  md_tone :: "string option"
  md_responseTime :: "int option"
  md_references :: "string list option"
  md_suggestions :: "string list option"
  md_provider :: "string option"

definition only_type :: "jsval \<Rightarrow> metadata" where
  "only_type t =
     \<lparr>md_type = t, md_documentType = None, md_tone = None, md_responseTime = None,
      md_references = None, md_suggestions = None, md_provider = None\<rparr>"

record message =
  msg_role :: string
  msg_content :: string
  msg_metadata :: metadata
  msg_timestamp :: int

record conversation =
  conv_id :: string
  conv_userId :: string
  conv_title :: string
  conv_description :: string
  conv_status :: string
  conv_messages :: "message list"

section \<open>The outside world\<close>

text \<open>
  One call to the generative-AI service: \<^verbatim>\<open>model.generateContent([system, prompt])\<close> on a
  model, or \<^verbatim>\<open>model.startChat({history}).sendMessage(prompt)\<close> on a model created with a
  system instruction. A history entry is a role and the texts of its parts.
\<close>

datatype gen_call =
    GenerateContent string "string list"
  | SendMessage string string "(string \<times> string list) list" string

text \<open>
  Everything outside the service: whether the client was configured (\<^verbatim>\<open>googleAI\<close> is not
  \<^verbatim>\<open>null\<close>), what the remote service answers to the \<open>n\<close>-th call (a text, or the error it
  throws), the calls made so far, the warnings logged, the clock (\<^verbatim>\<open>Date.now()\<close>, by the
  number of readings so far), the conversation collection by \<^verbatim>\<open>_id\<close>, and the faults of the
  database (the message of the error the \<open>n\<close>-th operation throws, if it does).
\<close>

record world =
  googleAI :: bool
  respond :: "nat \<Rightarrow> gen_call \<Rightarrow> js_error + string"
  calls :: "gen_call list"
  warnings :: "(string \<times> string) list"
  clock :: "nat \<Rightarrow> int"
  reads :: nat
  conversations :: "string \<Rightarrow> conversation option"
  db_fault :: "nat \<Rightarrow> string option"
  db_ops :: nat

text \<open>
  An asynchronous operation either returns a value or throws, and leaves a world behind in
  both cases.
\<close>

type_synonym 'a io = "world \<Rightarrow> (js_error + 'a) \<times> world"

definition return_io :: "'a \<Rightarrow> 'a io" where
  "return_io x w = (Inr x, w)"

definition throw_io :: "js_error \<Rightarrow> 'a io" where
  "throw_io e w = (Inl e, w)"

definition lift_io :: "js_error + 'a \<Rightarrow> 'a io" where
  "lift_io r w = (r, w)"

definition bind_io :: "'a io \<Rightarrow> ('a \<Rightarrow> 'b io) \<Rightarrow> 'b io" where
  "bind_io m f w = (case m w of (Inl e, w') \<Rightarrow> (Inl e, w') | (Inr x, w') \<Rightarrow> f x w')"

definition try_catch :: "'a io \<Rightarrow> (js_error \<Rightarrow> 'a io) \<Rightarrow> 'a io" where
  "try_catch body handler w =
     (case body w of (Inl e, w') \<Rightarrow> handler e w' | (Inr x, w') \<Rightarrow> (Inr x, w'))"

text \<open>
  The catch block every method of the service ends with:
  \<^verbatim>\<open>if (error instanceof APIError) throw error; throw new APIError(`...: ${error.message}`, 500)\<close>.
\<close>

definition rethrow_or_wrap :: "string \<Rightarrow> js_error \<Rightarrow> 'a io" where
  "rethrow_or_wrap what error =
     (if is_APIError error then throw_io error
      else throw_io (APIError (what @ message_of error) INTERNAL_SERVER_ERROR))"

definition Date_now :: "int io" where
  "Date_now w = (Inr (clock w (reads w)), w\<lparr>reads := Suc (reads w)\<rparr>)"

definition send :: "gen_call \<Rightarrow> string io" where
  "send c w = (respond w (length (calls w)) c, w\<lparr>calls := calls w @ [c]\<rparr>)"

definition logger_warn :: "string \<Rightarrow> string \<Rightarrow> world \<Rightarrow> world" where
  "logger_warn line detail w = w\<lparr>warnings := warnings w @ [(line, detail)]\<rparr>"

section \<open>Generation provider adapter\<close>

record gen_options =
  systemPrompt :: "string option"
  temperature :: "real option"
  maxTokens :: "nat option"

definition modelNames :: "string list" where
  "modelNames = [''gemini-2.5-flash'', ''gemini-1.5-flash'', ''gemini-pro'']"

definition system_or_default :: "gen_options \<Rightarrow> string" where
  "system_or_default options =
     (if given (systemPrompt options) then the (systemPrompt options)
      else ''You are a legal contract expert. Generate professional, legally sound contracts.'')"

text \<open>The loop of \<^verbatim>\<open>generateWithGoogleAI\<close> over the remaining model names.\<close>

fun generateWithGoogleAI_loop :: "string list \<Rightarrow> string \<Rightarrow> gen_options \<Rightarrow> string io" where
  "generateWithGoogleAI_loop [] prompt options w =
     (Inl (Error ''All Google AI models failed''), w)"
| "generateWithGoogleAI_loop (modelName # rest) prompt options w =
     (case send (GenerateContent modelName [system_or_default options, prompt]) w of
        (Inr text, w') \<Rightarrow> (Inr text, w')
      | (Inl error, w') \<Rightarrow>
          generateWithGoogleAI_loop rest prompt options
            (logger_warn (''Google AI model '' @ modelName @ '' failed:'') (message_of error) w'))"

definition generateWithGoogleAI :: "string \<Rightarrow> gen_options \<Rightarrow> string io" where
  "generateWithGoogleAI prompt options w =
     (if \<not> googleAI w then (Inl (Error ''Google AI not configured''), w)
      else generateWithGoogleAI_loop modelNames prompt options w)"

text \<open>A turn of a chat history, \<^verbatim>\<open>{role, parts}\<close>, and the result \<^verbatim>\<open>{text, history}\<close>.\<close>

datatype turn = Turn (turn_role: string) (turn_parts: string)

record chat_result =
  chat_text :: string
  chat_history :: "turn list"

fun generateWithChatHistory_loop ::
  "string list \<Rightarrow> string \<Rightarrow> turn list \<Rightarrow> gen_options \<Rightarrow> chat_result io" where
  "generateWithChatHistory_loop [] prompt history options w =
     (Inl (Error ''All Google AI models failed''), w)"
| "generateWithChatHistory_loop (modelName # rest) prompt history options w =
     (let chatHistory =
            map (\<lambda>msg. (if turn_role msg = ''user'' then ''user'' else ''model'', [turn_parts msg]))
              (filter (\<lambda>msg. turn_role msg \<noteq> ''system'') history)
      in case send (SendMessage modelName (system_or_default options) chatHistory prompt) w of
           (Inr responseText, w') \<Rightarrow>
             (Inr \<lparr>chat_text = responseText,
                   chat_history = history @ [Turn ''user'' prompt, Turn ''model'' responseText]\<rparr>, w')
         | (Inl error, w') \<Rightarrow>
             generateWithChatHistory_loop rest prompt history options
               (logger_warn (''Google AI model '' @ modelName @ '' failed:'') (message_of error) w'))"

definition generateWithChatHistory :: "string \<Rightarrow> turn list \<Rightarrow> gen_options \<Rightarrow> chat_result io" where
  "generateWithChatHistory prompt history options w =
     (if \<not> googleAI w then (Inl (Error ''Google AI not configured''), w)
      else generateWithChatHistory_loop modelNames prompt history options w)"

section \<open>Conversation store\<close>

text \<open>
  Modelled from the spec: the conversation model (\<^verbatim>\<open>models/conversation.model\<close>, with
  \<^verbatim>\<open>Conversation.findOne\<close> and the document method \<^verbatim>\<open>addMessage\<close>) is not among the
  sources. From the specification: \<^verbatim>\<open>getById\<close> finds the conversation with that id which
  belongs to that user and is not soft-deleted; messages are append-only and kept in
  creation order, each with role, content, metadata and timestamp; a store read or write
  can fail. A database operation that fails throws an error and changes nothing.
\<close>

definition Conversation_findOne :: "string \<Rightarrow> string \<Rightarrow> conversation option io" where
  "Conversation_findOne conversationId userId w =
     (case db_fault w (db_ops w) of
        Some msg \<Rightarrow> (Inl (Error msg), w\<lparr>db_ops := Suc (db_ops w)\<rparr>)
      | None \<Rightarrow>
          (Inr (case conversations w conversationId of
                  None \<Rightarrow> None
                | Some c \<Rightarrow>
                    (if conv_id c = conversationId \<and> conv_userId c = userId
                        \<and> conv_status c \<noteq> ''deleted''
                     then Some c else None)),
           w\<lparr>db_ops := Suc (db_ops w)\<rparr>))"

text \<open>
  Modelled from the spec: the document method \<^verbatim>\<open>conversation.addMessage(role, content,
  metadata)\<close>, which appends one message to the document and saves it.
\<close>

definition conversation_addMessage ::
  "conversation \<Rightarrow> string \<Rightarrow> string \<Rightarrow> metadata \<Rightarrow> conversation io" where
  "conversation_addMessage conversation role content metadata =
     bind_io Date_now (\<lambda>now w.
       (case db_fault w (db_ops w) of
          Some msg \<Rightarrow> (Inl (Error msg), w\<lparr>db_ops := Suc (db_ops w)\<rparr>)
        | None \<Rightarrow>
            (let saved = conversation\<lparr>conv_messages := conv_messages conversation @
                   [\<lparr>msg_role = role, msg_content = content, msg_metadata = metadata,
                     msg_timestamp = now\<rparr>]\<rparr>
             in (Inr saved,
                 w\<lparr>db_ops := Suc (db_ops w),
                   conversations := (conversations w)(conv_id conversation \<mapsto> saved)\<rparr>))))"

section \<open>Conversation service\<close>

definition getConversation :: "string option \<Rightarrow> string option \<Rightarrow> conversation io" where
  "getConversation conversationId userId =
     try_catch
       (if \<not> given conversationId then
          throw_io (APIError ''Conversation ID is required'' BAD_REQUEST)
        else if \<not> given userId then
          throw_io (APIError ''User ID is required'' BAD_REQUEST)
        else
          bind_io (Conversation_findOne (the conversationId) (the userId)) (\<lambda>conversation.
            case conversation of
              None \<Rightarrow> throw_io (APIError ''Conversation not found'' NOT_FOUND)
            | Some c \<Rightarrow> return_io c))
       (rethrow_or_wrap ''Error getting conversation: '')"

text \<open>
  \<^verbatim>\<open>addMessage\<close> sets the type of the metadata it was given when that has none. The
  caller's object is the one updated; the orchestrator only passes metadata whose type is
  truthy, which this leaves as it is.
\<close>

definition addMessage ::
  "string option \<Rightarrow> string option \<Rightarrow> string option \<Rightarrow> string option \<Rightarrow> metadata \<Rightarrow> conversation io" where
  "addMessage conversationId userId role content metadata =
     try_catch
       (if \<not> given conversationId then
          throw_io (APIError ''Conversation ID is required'' BAD_REQUEST)
        else if \<not> given userId then
          throw_io (APIError ''User ID is required'' BAD_REQUEST)
        else if \<not> given role then
          throw_io (APIError ''Message role is required'' BAD_REQUEST)
        else if \<not> given content then
          throw_io (APIError ''Message content is required'' BAD_REQUEST)
        else
          (let metadata =
                 (if \<not> truthy (md_type metadata)
                  then metadata\<lparr>md_type := JStr (if role = Some ''system'' then ''system'' else ''chat'')\<rparr>
                  else metadata)
           in bind_io (getConversation conversationId userId) (\<lambda>conversation.
                bind_io (conversation_addMessage conversation (the role) (the content) metadata)
                  (\<lambda>conversation. return_io conversation))))
       (rethrow_or_wrap ''Error adding message: '')"

section \<open>Intent classifier\<close>

text \<open>
  \<^verbatim>\<open>responseText.match(/\{[\s\S]*\}/)\<close>: the match, if there is one, runs from the first
  opening brace to the last closing brace after it.
\<close>

definition brace_match :: "string \<Rightarrow> string option" where
  "brace_match s =
     (let from_brace = dropWhile (\<lambda>c. c \<noteq> CHR ''{'') s in
      if from_brace = [] then None
      else
        (let inside = rev (dropWhile (\<lambda>c. c \<noteq> CHR ''}'') (rev (tl from_brace))) in
         if inside = [] then None else Some (CHR ''{'' # inside)))"

text \<open>
  \<^verbatim>\<open>JSON.parse\<close> is the engine's: a parameter, giving the parsed value or the error thrown.
\<close>

definition default_intent :: intent where
  "default_intent = \<lparr>intent_type = JStr ''general'', clauseType = JUndefined, confidence = JNum 0.95\<rparr>"

definition intent_request :: gen_options where
  "intent_request =
     \<lparr>systemPrompt = Some ''Analyze this legal query and determine the intent. Return a JSON object with type and confidence.'',
      temperature = Some 0.3, maxTokens = Some 500\<rparr>"

definition analyzeIntent :: "(string \<Rightarrow> js_error + jsval) \<Rightarrow> string \<Rightarrow> intent io" where
  "analyzeIntent JSON_parse message =
     try_catch
       (bind_io
          (generateWithGoogleAI message intent_request)
          (\<lambda>responseText.
             bind_io
               (try_catch (lift_io (JSON_parse responseText))
                  (\<lambda>_. case brace_match responseText of
                          Some jsonMatch \<Rightarrow> lift_io (JSON_parse jsonMatch)
                        | None \<Rightarrow> throw_io (Error ''Invalid response format'')))
               (\<lambda>result.
                  bind_io (lift_io (get_prop result ''type'')) (\<lambda>result_type.
                  bind_io (lift_io (get_prop result ''clauseType'')) (\<lambda>result_clauseType.
                  bind_io (lift_io (get_prop result ''confidence'')) (\<lambda>result_confidence.
                    return_io
                      \<lparr>intent_type = js_or result_type (JStr ''general''),
                       clauseType = result_clauseType,
                       confidence = js_or result_confidence (JNum 0.95)\<rparr>))))))
       (\<lambda>error. return_io default_intent)"

section \<open>Query orchestrator\<close>

text \<open>The built-ins of the engine that the orchestrator reaches.\<close>

record runtime =
  JSON_parse :: "string \<Rightarrow> js_error + jsval"
  Number_toString :: "real \<Rightarrow> string"
  String_match :: "regexp \<Rightarrow> string \<Rightarrow> string list option"

text \<open>The options \<^verbatim>\<open>{conversationId, userId, documentType, tone}\<close> and the answer \<^verbatim>\<open>{text, metadata}\<close>.\<close>

record query_options =
  opt_conversationId :: "string option"
  opt_userId :: "string option"
  opt_documentType :: "string option"
  opt_tone :: "string option"

record answer =
  ans_text :: string
  ans_metadata :: metadata

text \<open>The history in the provider's format, from the messages of a conversation.\<close>

definition formatHistory :: "message list \<Rightarrow> turn list" where
  "formatHistory messages =
     map (\<lambda>msg. Turn (if msg_role msg = ''user'' then ''user'' else ''model'') (msg_content msg))
       (filter (\<lambda>msg. msg_role msg \<noteq> ''system'') messages)"

text \<open>
  The inner \<^verbatim>\<open>try\<close> of \<^verbatim>\<open>processLegalQuery\<close>: load the history, generate, take the time.
  Its \<^verbatim>\<open>catch\<close> wraps whatever was thrown. (A loaded conversation is an object, so
  \<^verbatim>\<open>if (conversation)\<close> always holds.)
\<close>

definition processLegalQuery_generate ::
  "string \<Rightarrow> string option \<Rightarrow> string option \<Rightarrow> string \<Rightarrow> int \<Rightarrow> (string \<times> int) io" where
  "processLegalQuery_generate message conversationId userId systemMessage startTime =
     try_catch
       (bind_io
          (if given conversationId \<and> given userId then
             bind_io (getConversation conversationId userId) (\<lambda>conversation.
               return_io (formatHistory (conv_messages conversation)))
           else return_io [])
          (\<lambda>history.
             bind_io
               (if history \<noteq> [] then
                  bind_io
                    (generateWithChatHistory message history
                       \<lparr>systemPrompt = Some systemMessage, temperature = Some 0.7, maxTokens = None\<rparr>)
                    (\<lambda>result. return_io (chat_text result))
                else
                  generateWithGoogleAI message
                    \<lparr>systemPrompt = Some systemMessage, temperature = Some 0.7, maxTokens = Some 1000\<rparr>)
               (\<lambda>aiResponse.
                  bind_io Date_now (\<lambda>now. return_io (aiResponse, now - startTime)))))
       (\<lambda>err. throw_io
          (APIError (''Error processing legal query: '' @ message_of err) INTERNAL_SERVER_ERROR))"

text \<open>
  The body of the outer \<^verbatim>\<open>try\<close> up to the assembled metadata: it gives the generated
  text, the metadata type and the metadata.
\<close>

definition processLegalQuery_answer ::
  "runtime \<Rightarrow> string option \<Rightarrow> query_options \<Rightarrow> int \<Rightarrow> (string \<times> jsval \<times> metadata) io" where
  "processLegalQuery_answer rt message options startTime =
     (if \<not> given message then throw_io (APIError ''Message is required'' BAD_REQUEST)
      else
        bind_io (analyzeIntent (JSON_parse rt) (the message)) (\<lambda>intent.
        bind_io (lift_io (mapIntentToMetadataType (Number_toString rt) (intent_type intent)))
          (\<lambda>metadataType.
        bind_io (lift_io (prepareSystemMessage (Number_toString rt) intent
                   (opt_documentType options) (opt_tone options)))
          (\<lambda>systemMessage.
        bind_io (processLegalQuery_generate (the message) (opt_conversationId options)
                   (opt_userId options) systemMessage startTime)
          (\<lambda>(aiResponse, responseTime).
             return_io
               (aiResponse, metadataType,
                \<lparr>md_type = metadataType,
                 md_documentType = opt_documentType options,
                 md_tone = opt_tone options,
                 md_responseTime = Some responseTime,
                 md_references = Some (extractReferences (String_match rt) (JStr aiResponse)),
                 md_suggestions = Some (extractSuggestions (JStr aiResponse)),
                 md_provider = Some ''google''\<rparr>))))))"

text \<open>Saving the interaction: the user's turn, then the assistant's.\<close>

definition processLegalQuery_save ::
  "string option \<Rightarrow> string option \<Rightarrow> string option \<Rightarrow> jsval \<Rightarrow> string \<Rightarrow> metadata \<Rightarrow> unit io" where
  "processLegalQuery_save conversationId userId message metadataType aiResponse metadata =
     (if given conversationId \<and> given userId then
        bind_io (addMessage conversationId userId (Some ''user'') message (only_type metadataType))
          (\<lambda>_.
        bind_io (addMessage conversationId userId (Some ''assistant'') (Some aiResponse) metadata)
          (\<lambda>_. return_io ()))
      else return_io ())"

definition processLegalQuery :: "runtime \<Rightarrow> string option \<Rightarrow> query_options \<Rightarrow> answer io" where
  "processLegalQuery rt message options =
     bind_io Date_now (\<lambda>startTime.
       try_catch
         (bind_io (processLegalQuery_answer rt message options startTime)
            (\<lambda>(aiResponse, metadataType, metadata).
          bind_io (processLegalQuery_save (opt_conversationId options) (opt_userId options)
                     message metadataType aiResponse metadata)
            (\<lambda>_. return_io \<lparr>ans_text = aiResponse, ans_metadata = metadata\<rparr>)))
         (rethrow_or_wrap ''Error processing legal query: ''))"

section \<open>Appending a sequence of messages\<close>


section \<open>Predicates and concrete inputs used in the statements\<close>

text \<open>A trimmed line starts with one of the action verbs.\<close>

definition starts_with_verb :: "string \<Rightarrow> bool" where
  "starts_with_verb l = list_ex (\<lambda>verb. prefix verb l) actionVerbs"

text \<open>
  The first text the service gives when the calls of a list are made one after another,
  the first of them as call number \<open>n\<close>, each only after the failure of the one before;
  and the calls \<^verbatim>\<open>generateWithChatHistory\<close> makes, one for each model name.
\<close>

fun first_reply :: "(nat \<Rightarrow> gen_call \<Rightarrow> js_error + string) \<Rightarrow> nat \<Rightarrow> gen_call list \<Rightarrow> string option" where
  "first_reply answer n [] = None"
| "first_reply answer n (c # cs) =
     (case answer n c of Inr reply \<Rightarrow> Some reply | Inl e \<Rightarrow> first_reply answer (Suc n) cs)"

definition chat_calls :: "string list \<Rightarrow> string \<Rightarrow> turn list \<Rightarrow> gen_options \<Rightarrow> gen_call list" where
  "chat_calls names prompt history options =
     map (\<lambda>modelName. SendMessage modelName (system_or_default options)
            (map (\<lambda>msg. (if turn_role msg = ''user'' then ''user'' else ''model'', [turn_parts msg]))
               (filter (\<lambda>msg. turn_role msg \<noteq> ''system'') history)) prompt) names"

text \<open>
  No conversation with that id is there for that user: it is absent, belongs to another
  user, or is soft-deleted.
\<close>

definition no_conversation :: "string \<Rightarrow> string \<Rightarrow> world \<Rightarrow> bool" where
  "no_conversation conversationId userId w =
     (case conversations w conversationId of
        None \<Rightarrow> True
      | Some c \<Rightarrow>
          conv_id c \<noteq> conversationId \<or> conv_userId c \<noteq> userId \<or> conv_status c = ''deleted'')"

text \<open>
  A runtime that is right on the texts the examples use: \<^verbatim>\<open>JSON.parse\<close> on \<^verbatim>\<open>{}\<close>, on
  \<^verbatim>\<open>null\<close> and on texts that are not JSON; the three patterns on a text that cites
  \<^verbatim>\<open>Article 21\<close> twice and on texts they do not match (no example prints a number). A
  conversation as \<^verbatim>\<open>createConversation\<close> makes it, owned by
  user \<^verbatim>\<open>u1\<close>, and a world holding it where the service answers every call with the same
  line.
\<close>

definition demo_runtime :: runtime where
  "demo_runtime =
     \<lparr>JSON_parse = (\<lambda>s. if s = ''{}'' then Inr (JObj [])
                          else if s = ''null'' then Inr JNull
                          else Inl (Error ''Unexpected token in JSON'')),
      Number_toString = (\<lambda>x. ''0''),
      String_match =
        (\<lambda>r s. if r = sectionRegex \<and> s = ''Article 21 applies. Article 21 binds.''
               then Some [''Article 21 '', ''Article 21 ''] else None)\<rparr>"

definition demo_conversation :: conversation where
  "demo_conversation =
     \<lparr>conv_id = ''c1'', conv_userId = ''u1'', conv_title = ''Lease'', conv_description = [],
      conv_status = ''active'',
      conv_messages =
        [\<lparr>msg_role = ''system'',
          msg_content = ''You are a legal document assistant. You help users understand, analyze, and improve legal documents.'',
          msg_metadata = only_type (JStr ''system''),
          msg_timestamp = 0\<rparr>]\<rparr>"

definition demo_world :: world where
  "demo_world =
     \<lparr>googleAI = True,
      respond = (\<lambda>n c. Inr ''Consider a notice period.''),
      calls = [],
      warnings = [],
      clock = (\<lambda>n. 1000 + 10 * int n),
      reads = 0,
      conversations = [''c1'' \<mapsto> demo_conversation],
      db_fault = (\<lambda>n. None),
      db_ops = 0\<rparr>"

definition demo_options :: "string option \<Rightarrow> string option \<Rightarrow> query_options" where
  "demo_options conversationId userId =
     \<lparr>opt_conversationId = conversationId, opt_userId = userId,
      opt_documentType = None, opt_tone = None\<rparr>"

text \<open>The metadata \<^verbatim>\<open>addMessage\<close> hands to the store for a message of that role.\<close>

definition typed :: "string option \<Rightarrow> metadata \<Rightarrow> metadata" where
  "typed role md =
     (if \<not> truthy (md_type md)
      then md\<lparr>md_type := JStr (if role = Some ''system'' then ''system'' else ''chat'')\<rparr>
      else md)"


section \<open>Properties of the post-processor\<close>

lemma scan_verbs_eq:
  "scan_verbs line verbs acc =
     (if list_ex (\<lambda>verb. prefix verb (trim line)) verbs then acc @ [trim line] else acc)"
  by (induction verbs) auto

lemma scan_lines_eq:
  "scan_lines lines acc = acc @ filter starts_with_verb (map trim lines)"
  by (induction lines arbitrary: acc) (auto simp: scan_verbs_eq starts_with_verb_def)

lemma filter_verbs_empty_line: "filter starts_with_verb (map trim (split_lines [])) = []"
  by (simp add: split_lines_def trim_def starts_with_verb_def actionVerbs_def)

lemma distinct_foldl_Set_add: "distinct acc \<Longrightarrow> distinct (foldl Set_add acc xs)"
  by (induction xs arbitrary: acc) (auto simp: Set_add_def)

text \<open>
  C8. \<^verbatim>\<open>extractSuggestions\<close> splits a string into lines and returns, trimmed and in the
  original order, exactly the lines that after trimming start with one of the eleven
  action verbs, each line once however many verbs it starts with; on the text
  \<^verbatim>\<open>"Consider revising.\nThe sky is blue.\nReview clause 4."\<close> the result is
  \<^verbatim>\<open>["Consider revising.", "Review clause 4."]\<close>.
\<close>

theorem extractSuggestions_lines:
  "extractSuggestions (JStr s) = filter starts_with_verb (map trim (split_lines s))
   \<and> length actionVerbs = 11
   \<and> extractSuggestions (JStr ''Consider revising.\<newline>The sky is blue.\<newline>Review clause 4.'')
       = [''Consider revising.'', ''Review clause 4.'']"
proof (intro conjI)
  show "extractSuggestions (JStr s) = filter starts_with_verb (map trim (split_lines s))"
    by (cases "s = []") (simp_all add: extractSuggestions_def scan_lines_eq filter_verbs_empty_line)
  show "length actionVerbs = 11"
    by (simp add: actionVerbs_def)
  show "extractSuggestions (JStr ''Consider revising.\<newline>The sky is blue.\<newline>Review clause 4.'')
       = [''Consider revising.'', ''Review clause 4.'']"
    by (simp add: extractSuggestions_def split_lines_def actionVerbs_def trim_def is_space_def)
qed

theorem extractSuggestions_lines_witness:
  "extractSuggestions (JStr ''  Add a notice period.  \<newline>Additionally, nothing.\<newline>add'')
     = [''Add a notice period.'', ''Additionally, nothing.'']"
  using extractSuggestions_lines [of "''  Add a notice period.  \<newline>Additionally, nothing.\<newline>add''"]
  by (simp add: split_lines_def starts_with_verb_def actionVerbs_def trim_def is_space_def)

lemma set_foldl_Set_add: "set (foldl Set_add acc xs) = set acc \<union> set xs"
  by (induction xs arbitrary: acc) (auto simp: Set_add_def)

text \<open>
  C9. Whatever the three patterns match, the list \<^verbatim>\<open>extractReferences\<close> returns has no
  duplicate entry; on \<^verbatim>\<open>null\<close> or any other value that is not a string both
  \<^verbatim>\<open>extractReferences\<close> and \<^verbatim>\<open>extractSuggestions\<close> return the empty list; and on a
  non-empty string the entries returned are exactly the matches of the three patterns.
\<close>

theorem extractReferences_distinct:
  "distinct (extractReferences match text)
   \<and> (\<not> is_JStr text \<longrightarrow> extractReferences match text = [] \<and> extractSuggestions text = [])
   \<and> (truthy text \<and> is_JStr text \<longrightarrow>
        set (extractReferences match text)
          = set (or_empty (match sectionRegex (str_of text)) @ or_empty (match caseRegex (str_of text))
                 @ or_empty (match actRegex (str_of text))))"
  by (auto simp: extractReferences_def extractSuggestions_def new_Set_def distinct_foldl_Set_add
      set_foldl_Set_add Let_def)

theorem extractReferences_distinct_witness:
  "\<not> is_JStr JNull
   \<and> extractReferences (String_match demo_runtime) JNull = []
   \<and> extractSuggestions JNull = []
   \<and> extractReferences (String_match demo_runtime) (JNum 4) = []
   \<and> extractSuggestions (JNum 4) = []
   \<and> extractReferences (String_match demo_runtime) (JStr ''Article 21 applies. Article 21 binds.'')
       = [''Article 21 '']"
  using extractReferences_distinct [of "String_match demo_runtime" JNull]
    extractReferences_distinct [of "String_match demo_runtime" "JNum 4"]
    extractReferences_distinct [of "String_match demo_runtime" "JStr ''Article 21 applies. Article 21 binds.''"]
  by (simp add: extractReferences_def new_Set_def Set_add_def or_empty_def demo_runtime_def)

section \<open>Properties of the system-prompt builder\<close>

text \<open>
  C3, as the specification states it, fails: for the intent \<^verbatim>\<open>adjust\<close> with the tone
  \<^verbatim>\<open>casual\<close> the tone instruction sentence is appended after the adjust clause.
\<close>

theorem prepareSystemMessage_adjust_tone_counterexample:
  "prepareSystemMessage (Number_toString demo_runtime)
     \<lparr>intent_type = JStr ''adjust'', clauseType = JUndefined, confidence = JNum 0.95\<rparr>
     None (Some ''casual'')
   = Inr (''You are a legal document assistant. Rewrite the following text in a casual tone while maintaining its legal meaning.''
          @ toneInstruction ''casual'')"
  by (simp add: prepareSystemMessage_def toneInstruction_def)

text \<open>
  C3, amended. \<^verbatim>\<open>prepareSystemMessage\<close> appends the tone instruction sentence whenever a
  tone is given, whatever the intent, and never without one. Without a tone (absent or
  empty) the prompt is the base instruction, the clause of the intent and the document
  sentence if a document type is given, and nothing more: no tone instruction is
  appended, and the clause of \<^verbatim>\<open>adjust\<close> names the tone \<^verbatim>\<open>formal\<close>. With a tone and an intent
  other than \<^verbatim>\<open>adjust\<close> the prompt is the one built for no tone followed by the tone
  instruction; with a tone and the intent \<^verbatim>\<open>adjust\<close> it is the adjust clause naming the
  tone, the document sentence if a document type is given, and then the tone instruction
  as well. So every prompt built with a tone ends with the tone instruction.
\<close>

theorem prepareSystemMessage_tone:
  "(\<not> given tone \<longrightarrow>
      prepareSystemMessage numstr intent documentType tone
        = prepareSystemMessage numstr intent documentType None)
   \<and> (given tone \<and> intent_type intent \<noteq> JStr ''adjust'' \<longrightarrow>
      prepareSystemMessage numstr intent documentType tone
        = map_sum id (\<lambda>prompt. prompt @ toneInstruction (the tone))
            (prepareSystemMessage numstr intent documentType None))
   \<and> (given tone \<and> intent_type intent = JStr ''adjust'' \<longrightarrow>
      prepareSystemMessage numstr intent documentType tone
        = Inr (''You are a legal document assistant. Rewrite the following text in a '' @ the tone
               @ '' tone while maintaining its legal meaning.''
               @ (if given documentType then '' The context is about a '' @ the documentType @ ''.'' else [])
               @ toneInstruction (the tone)))
   \<and> (given tone \<longrightarrow>
      (\<forall>prompt. prepareSystemMessage numstr intent documentType tone = Inr prompt
         \<longrightarrow> suffix (toneInstruction (the tone)) prompt))
   \<and> (\<not> given tone \<and> intent_type intent = JStr ''adjust'' \<longrightarrow>
      prepareSystemMessage numstr intent documentType tone
        = Inr (''You are a legal document assistant. Rewrite the following text in a formal tone while maintaining its legal meaning.''
               @ (if given documentType then '' The context is about a '' @ the documentType @ ''.'' else [])))
   \<and> (\<not> given tone \<and> intent_type intent = JStr ''summarize'' \<longrightarrow>
      prepareSystemMessage numstr intent documentType tone
        = Inr (''You are a legal document assistant. Summarize the following text in a clear and concise manner.''
               @ (if given documentType then '' The context is about a '' @ the documentType @ ''.'' else [])))
   \<and> (\<not> given tone \<and> intent_type intent = JStr ''explain'' \<longrightarrow>
      prepareSystemMessage numstr intent documentType tone
        = Inr (''You are a legal document assistant. Explain the following legal terms and concepts in plain English.''
               @ (if given documentType then '' The context is about a '' @ the documentType @ ''.'' else [])))
   \<and> (\<not> given tone \<and> intent_type intent = JStr ''analyze'' \<longrightarrow>
      prepareSystemMessage numstr intent documentType tone
        = Inr (''You are a legal document assistant. Analyze the following text for potential risks, missing clauses, and enforceability concerns.''
               @ (if given documentType then '' The context is about a '' @ the documentType @ ''.'' else [])))
   \<and> (\<not> given tone \<and> intent_type intent = JStr ''suggest'' \<longrightarrow>
      prepareSystemMessage numstr intent documentType tone
        = map_sum id
            (\<lambda>clause. ''You are a legal document assistant. Suggest appropriate '' @ clause
               @ '' clauses based on the following context.''
               @ (if given documentType then '' The context is about a '' @ the documentType @ ''.'' else []))
            (ToString numstr (clauseType intent)))
   \<and> (\<not> given tone
        \<and> intent_type intent \<notin> set [JStr ''summarize'', JStr ''explain'', JStr ''analyze'',
                                        JStr ''suggest'', JStr ''adjust''] \<longrightarrow>
      prepareSystemMessage numstr intent documentType tone
        = Inr (''You are a legal document assistant. Provide clear, accurate, and helpful legal information.''
               @ (if given documentType then '' The context is about a '' @ the documentType @ ''.'' else [])))"
  by (auto simp: prepareSystemMessage_def Let_def suffix_def split: sum.splits)

theorem prepareSystemMessage_tone_witness:
  "given (Some ''casual'') \<and> \<not> given None \<and> \<not> given (Some [])
   \<and> prepareSystemMessage (\<lambda>x. []) \<lparr>intent_type = JStr ''adjust'', clauseType = JUndefined, confidence = JNum 0.95\<rparr>
        (Some ''lease'') (Some ''casual'')
       = Inr ''You are a legal document assistant. Rewrite the following text in a casual tone while maintaining its legal meaning. The context is about a lease. Use a casual tone in your response.''
   \<and> prepareSystemMessage (\<lambda>x. []) \<lparr>intent_type = JStr ''explain'', clauseType = JUndefined, confidence = JNum 0.95\<rparr>
        None (Some ''casual'')
       = Inr ''You are a legal document assistant. Explain the following legal terms and concepts in plain English. Use a casual tone in your response.''
   \<and> prepareSystemMessage (\<lambda>x. []) \<lparr>intent_type = JStr ''adjust'', clauseType = JUndefined, confidence = JNum 0.95\<rparr>
        None (Some [])
       = Inr ''You are a legal document assistant. Rewrite the following text in a formal tone while maintaining its legal meaning.''
   \<and> prepareSystemMessage (\<lambda>x. []) \<lparr>intent_type = JStr ''adjust'', clauseType = JUndefined, confidence = JNum 0.95\<rparr>
        (Some ''lease'') None
       = Inr ''You are a legal document assistant. Rewrite the following text in a formal tone while maintaining its legal meaning. The context is about a lease.''
   \<and> prepareSystemMessage (\<lambda>x. []) \<lparr>intent_type = JStr ''summarize'', clauseType = JUndefined, confidence = JNum 0.95\<rparr>
        (Some ''lease'') None
       = Inr ''You are a legal document assistant. Summarize the following text in a clear and concise manner. The context is about a lease.''
   \<and> prepareSystemMessage (\<lambda>x. []) \<lparr>intent_type = JStr ''suggest'', clauseType = JStr ''indemnity'', confidence = JNum 0.95\<rparr>
        None None
       = Inr ''You are a legal document assistant. Suggest appropriate indemnity clauses based on the following context.''
   \<and> prepareSystemMessage (\<lambda>x. []) \<lparr>intent_type = JStr ''general'', clauseType = JUndefined, confidence = JNum 0.95\<rparr>
        None None
       = Inr ''You are a legal document assistant. Provide clear, accurate, and helpful legal information.''"
  using prepareSystemMessage_tone [of None "\<lambda>x. []"
          "\<lparr>intent_type = JStr ''adjust'', clauseType = JUndefined, confidence = JNum 0.95\<rparr>" "Some ''lease''"]
        prepareSystemMessage_tone [of None "\<lambda>x. []"
          "\<lparr>intent_type = JStr ''summarize'', clauseType = JUndefined, confidence = JNum 0.95\<rparr>" "Some ''lease''"]
        prepareSystemMessage_tone [of None "\<lambda>x. []"
          "\<lparr>intent_type = JStr ''suggest'', clauseType = JStr ''indemnity'', confidence = JNum 0.95\<rparr>" None]
        prepareSystemMessage_tone [of None "\<lambda>x. []"
          "\<lparr>intent_type = JStr ''general'', clauseType = JUndefined, confidence = JNum 0.95\<rparr>" None]
        prepareSystemMessage_tone [of "Some ''casual''" "\<lambda>x. []"
          "\<lparr>intent_type = JStr ''adjust'', clauseType = JUndefined, confidence = JNum 0.95\<rparr>" "Some ''lease''"]
        prepareSystemMessage_tone [of "Some ''casual''" "\<lambda>x. []"
          "\<lparr>intent_type = JStr ''explain'', clauseType = JUndefined, confidence = JNum 0.95\<rparr>" None]
        prepareSystemMessage_tone [of "Some []" "\<lambda>x. []"
          "\<lparr>intent_type = JStr ''adjust'', clauseType = JUndefined, confidence = JNum 0.95\<rparr>" None]
  by (simp add: prepareSystemMessage_def toneInstruction_def)


section \<open>Properties of the provider adapter\<close>

lemmas io_defs = return_io_def throw_io_def lift_io_def bind_io_def try_catch_def rethrow_or_wrap_def

lemma generateWithGoogleAI_loop_store:
  "generateWithGoogleAI_loop names prompt options w = (r, w')
   \<Longrightarrow> conversations w' = conversations w \<and> db_fault w' = db_fault w \<and> db_ops w' = db_ops w"
proof (induction names arbitrary: w)
  case Nil
  then show ?case by auto
next
  case (Cons modelName rest)
  show ?case
  proof (cases "respond w (length (calls w)) (GenerateContent modelName [system_or_default options, prompt])")
    case (Inl e)
    with Cons.prems have "generateWithGoogleAI_loop rest prompt options
        (logger_warn (''Google AI model '' @ modelName @ '' failed:'') (message_of e)
           (w\<lparr>calls := calls w @ [GenerateContent modelName [system_or_default options, prompt]]\<rparr>)) = (r, w')"
      by (simp add: send_def)
    from Cons.IH [OF this] show ?thesis by (simp add: logger_warn_def)
  next
    case (Inr reply)
    with Cons.prems show ?thesis by (auto simp: send_def)
  qed
qed


text \<open>
  Sequential fallback: each loop returns the first text the service gives to its calls
  taken in the order of the model names, and throws the fixed error when none gives one.
\<close>

lemma generateWithGoogleAI_loop_first_reply:
  "fst (generateWithGoogleAI_loop names prompt options w)
     = (case first_reply (respond w) (length (calls w))
               (map (\<lambda>modelName. GenerateContent modelName [system_or_default options, prompt]) names) of
          Some reply \<Rightarrow> Inr reply
        | None \<Rightarrow> Inl (Error ''All Google AI models failed''))"
proof (induction names arbitrary: w)
  case Nil
  show ?case by simp
next
  case (Cons modelName rest)
  show ?case
  proof (cases "respond w (length (calls w)) (GenerateContent modelName [system_or_default options, prompt])")
    case (Inl e)
    then show ?thesis
      using Cons.IH [of "logger_warn (''Google AI model '' @ modelName @ '' failed:'') (message_of e)
           (w\<lparr>calls := calls w @ [GenerateContent modelName [system_or_default options, prompt]]\<rparr>)"]
      by (simp add: send_def logger_warn_def)
  next
    case (Inr reply)
    then show ?thesis by (simp add: send_def)
  qed
qed

lemma generateWithChatHistory_loop_first_reply:
  "fst (generateWithChatHistory_loop names prompt history options w)
     = (case first_reply (respond w) (length (calls w)) (chat_calls names prompt history options) of
          Some reply \<Rightarrow>
            Inr \<lparr>chat_text = reply,
                 chat_history = history @ [Turn ''user'' prompt, Turn ''model'' reply]\<rparr>
        | None \<Rightarrow> Inl (Error ''All Google AI models failed''))"
proof (induction names arbitrary: w)
  case Nil
  show ?case by (simp add: chat_calls_def)
next
  case (Cons modelName rest)
  let ?c = "SendMessage modelName (system_or_default options)
            (map (\<lambda>msg. (if turn_role msg = ''user'' then ''user'' else ''model'', [turn_parts msg]))
               (filter (\<lambda>msg. turn_role msg \<noteq> ''system'') history)) prompt"
  show ?case
  proof (cases "respond w (length (calls w)) ?c")
    case (Inl e)
    then show ?thesis
      using Cons.IH [of "logger_warn (''Google AI model '' @ modelName @ '' failed:'') (message_of e)
           (w\<lparr>calls := calls w @ [?c]\<rparr>)"]
      by (simp add: send_def logger_warn_def chat_calls_def Let_def)
  next
    case (Inr reply)
    then show ?thesis by (simp add: send_def chat_calls_def Let_def)
  qed
qed

lemma generateWithGoogleAI_third_model:
  assumes "googleAI w"
    and "\<forall>c. respond w (length (calls w)) c = Inl e1"
    and "\<forall>c. respond w (length (calls w) + 1) c = Inl e2"
    and "\<forall>c. respond w (length (calls w) + 2) c = Inr reply"
  shows "fst (generateWithGoogleAI prompt options w) = Inr reply"
  using assms
  by (simp add: generateWithGoogleAI_def modelNames_def send_def logger_warn_def)

text \<open>
  C2. The adapter tries the three models in order, each after the failure of the one
  before. When all three have failed, both \<^verbatim>\<open>generateWithGoogleAI\<close> and
  \<^verbatim>\<open>generateWithChatHistory\<close> throw a new \<^verbatim>\<open>Error('All Google AI models failed')\<close>, which
  is the same whatever the three underlying errors \<open>e1\<close>, \<open>e2\<close>, \<open>e3\<close> were: the last
  underlying error is not carried.
\<close>

theorem generate_all_models_failed:
  assumes "googleAI w"
    and "\<forall>c. respond w (length (calls w)) c = Inl e1"
    and "\<forall>c. respond w (length (calls w) + 1) c = Inl e2"
    and "\<forall>c. respond w (length (calls w) + 2) c = Inl e3"
  shows "fst (generateWithGoogleAI prompt options w) = Inl (Error ''All Google AI models failed'')
    \<and> fst (generateWithChatHistory prompt history options w) = Inl (Error ''All Google AI models failed'')
    \<and> calls (snd (generateWithGoogleAI prompt options w)) = calls w @
          map (\<lambda>modelName. GenerateContent modelName [system_or_default options, prompt]) modelNames"
  using assms
  by (simp add: generateWithGoogleAI_def generateWithChatHistory_def modelNames_def send_def
      logger_warn_def Let_def)

theorem generate_all_models_failed_witness:
  "fst (generateWithGoogleAI ''Draft a lease'' intent_request
          (demo_world\<lparr>respond := (\<lambda>n c. Inl (Error ''quota exceeded''))\<rparr>))
     = Inl (Error ''All Google AI models failed'')
   \<and> fst (generateWithChatHistory ''Draft a lease'' [Turn ''user'' ''Hello''] intent_request
          (demo_world\<lparr>respond := (\<lambda>n c. Inl (Error ''quota exceeded''))\<rparr>))
     = Inl (Error ''All Google AI models failed'')
   \<and> map snd (warnings (snd (generateWithGoogleAI ''Draft a lease'' intent_request
          (demo_world\<lparr>respond := (\<lambda>n c. Inl (Error ''quota exceeded''))\<rparr>))))
     = [''quota exceeded'', ''quota exceeded'', ''quota exceeded'']"
proof -
  let ?w = "demo_world\<lparr>respond := (\<lambda>n c. Inl (Error ''quota exceeded''))\<rparr>"
  have h1: "googleAI ?w"
    by (simp add: demo_world_def)
  have h2: "\<forall>c. respond ?w (length (calls ?w)) c = Inl (Error ''quota exceeded'')"
    and h3: "\<forall>c. respond ?w (length (calls ?w) + 1) c = Inl (Error ''quota exceeded'')"
    and h4: "\<forall>c. respond ?w (length (calls ?w) + 2) c = Inl (Error ''quota exceeded'')"
    by simp_all
  from generate_all_models_failed [OF h1 h2 h3 h4,
      of "''Draft a lease''" intent_request "[Turn ''user'' ''Hello'']"]
  show ?thesis
    by (simp add: demo_world_def generateWithGoogleAI_def modelNames_def send_def logger_warn_def)
qed

section \<open>Properties of the intent classifier\<close>

lemma analyzeIntent_store:
  "analyzeIntent parse message w = (r, w')
   \<Longrightarrow> conversations w' = conversations w \<and> db_fault w' = db_fault w \<and> db_ops w' = db_ops w"
  by (auto simp: analyzeIntent_def io_defs generateWithGoogleAI_def
      split: prod.splits sum.splits option.splits if_splits dest: generateWithGoogleAI_loop_store)

lemma analyzeIntent_returns: "\<exists>intent w'. analyzeIntent parse message w = (Inr intent, w')"
  by (auto simp: analyzeIntent_def io_defs split: prod.splits sum.splits option.splits)

text \<open>
  C5. \<^verbatim>\<open>analyzeIntent\<close> always returns an intent and never throws. When the provider call
  throws, and when the response parses neither as a whole nor in its brace-delimited
  part (or has no such part), the intent is exactly type \<^verbatim>\<open>general\<close> with confidence
  0.95. When a parse succeeds, as a whole or on the brace-delimited part, and the parsed
  value has no \<^verbatim>\<open>confidence\<close>, the confidence of the intent is 0.95.
\<close>

theorem analyzeIntent_never_raises:
  "(\<exists>intent. fst (analyzeIntent parse message w) = Inr intent)
   \<and> (\<forall>e. fst (generateWithGoogleAI message intent_request w) = Inl e \<longrightarrow>
        fst (analyzeIntent parse message w)
          = Inr \<lparr>intent_type = JStr ''general'', clauseType = JUndefined, confidence = JNum 0.95\<rparr>)
   \<and> (\<forall>responseText e. fst (generateWithGoogleAI message intent_request w) = Inr responseText
        \<and> parse responseText = Inl e
        \<and> (case brace_match responseText of None \<Rightarrow> True
            | Some jsonMatch \<Rightarrow> (\<exists>e'. parse jsonMatch = Inl e')) \<longrightarrow>
        fst (analyzeIntent parse message w)
          = Inr \<lparr>intent_type = JStr ''general'', clauseType = JUndefined, confidence = JNum 0.95\<rparr>)
   \<and> (\<forall>responseText result. fst (generateWithGoogleAI message intent_request w) = Inr responseText
        \<and> (parse responseText = Inr result
            \<or> (\<exists>e jsonMatch. parse responseText = Inl e \<and> brace_match responseText = Some jsonMatch
                  \<and> parse jsonMatch = Inr result))
        \<and> get_prop result ''confidence'' = Inr JUndefined \<longrightarrow>
        (\<exists>intent. fst (analyzeIntent parse message w) = Inr intent
           \<and> confidence intent = JNum 0.95))"
proof (intro conjI allI impI)
  show "\<exists>intent. fst (analyzeIntent parse message w) = Inr intent"
    using analyzeIntent_returns [of parse message w] by auto
next
  fix e
  assume "fst (generateWithGoogleAI message intent_request w) = Inl e"
  then show "fst (analyzeIntent parse message w)
      = Inr \<lparr>intent_type = JStr ''general'', clauseType = JUndefined, confidence = JNum 0.95\<rparr>"
    by (auto simp: analyzeIntent_def io_defs default_intent_def split: prod.splits sum.splits)
next
  fix responseText e
  assume "fst (generateWithGoogleAI message intent_request w) = Inr responseText
        \<and> parse responseText = Inl e
        \<and> (case brace_match responseText of None \<Rightarrow> True
            | Some jsonMatch \<Rightarrow> (\<exists>e'. parse jsonMatch = Inl e'))"
  then show "fst (analyzeIntent parse message w)
      = Inr \<lparr>intent_type = JStr ''general'', clauseType = JUndefined, confidence = JNum 0.95\<rparr>"
    by (auto simp: analyzeIntent_def io_defs default_intent_def
        split: prod.splits sum.splits option.splits)
next
  fix responseText result
  assume "fst (generateWithGoogleAI message intent_request w) = Inr responseText
        \<and> (parse responseText = Inr result
            \<or> (\<exists>e jsonMatch. parse responseText = Inl e \<and> brace_match responseText = Some jsonMatch
                  \<and> parse jsonMatch = Inr result))
        \<and> get_prop result ''confidence'' = Inr JUndefined"
  then show "\<exists>intent. fst (analyzeIntent parse message w) = Inr intent
           \<and> confidence intent = JNum 0.95"
    by (auto simp: analyzeIntent_def io_defs default_intent_def js_or_def
        split: prod.splits sum.splits option.splits)
qed

theorem analyzeIntent_never_raises_witness:
  "fst (analyzeIntent (JSON_parse demo_runtime) ''Explain clause 4''
          (demo_world\<lparr>respond := (\<lambda>n c. Inl (Error ''quota exceeded''))\<rparr>))
     = Inr \<lparr>intent_type = JStr ''general'', clauseType = JUndefined, confidence = JNum 0.95\<rparr>
   \<and> fst (analyzeIntent (JSON_parse demo_runtime) ''Explain clause 4''
          (demo_world\<lparr>respond := (\<lambda>n c. Inr ''I cannot tell.'')\<rparr>))
     = Inr \<lparr>intent_type = JStr ''general'', clauseType = JUndefined, confidence = JNum 0.95\<rparr>
   \<and> fst (analyzeIntent (JSON_parse demo_runtime) ''Explain clause 4''
          (demo_world\<lparr>respond := (\<lambda>n c. Inr ''null'')\<rparr>))
     = Inr \<lparr>intent_type = JStr ''general'', clauseType = JUndefined, confidence = JNum 0.95\<rparr>
   \<and> fst (analyzeIntent (JSON_parse demo_runtime) ''Explain clause 4''
          (demo_world\<lparr>respond := (\<lambda>n c. Inr ''Here it is: {}'')\<rparr>))
     = Inr \<lparr>intent_type = JStr ''general'', clauseType = JUndefined, confidence = JNum 0.95\<rparr>"
  using analyzeIntent_never_raises [of "JSON_parse demo_runtime" "''Explain clause 4''"
      "demo_world\<lparr>respond := (\<lambda>n c. Inl (Error ''quota exceeded''))\<rparr>"]
  by (simp add: analyzeIntent_def io_defs default_intent_def js_or_def demo_world_def
      demo_runtime_def generateWithGoogleAI_def modelNames_def send_def logger_warn_def
      brace_match_def)


section \<open>Properties of the conversation service\<close>

lemma getConversation_success:
  assumes "getConversation conversationId userId w = (Inr c, w')"
  shows "given conversationId \<and> given userId
    \<and> conversations w (the conversationId) = Some c
    \<and> conv_id c = the conversationId \<and> conv_userId c = the userId \<and> conv_status c \<noteq> ''deleted''
    \<and> w' = w\<lparr>db_ops := Suc (db_ops w)\<rparr>"
  using assms
  by (auto simp: getConversation_def Conversation_findOne_def io_defs
      split: if_splits option.splits)

lemma conversation_addMessage_success:
  assumes "conversation_addMessage c role content md w = (Inr c', w')"
  shows "c' = c\<lparr>conv_messages := conv_messages c @
            [\<lparr>msg_role = role, msg_content = content, msg_metadata = md,
              msg_timestamp = clock w (reads w)\<rparr>]\<rparr>
    \<and> w' = w\<lparr>reads := Suc (reads w), db_ops := Suc (db_ops w),
               conversations := (conversations w)(conv_id c \<mapsto> c')\<rparr>"
  using assms
  by (auto simp: conversation_addMessage_def Date_now_def io_defs Let_def split: option.splits)

lemma addMessage_success:
  assumes "addMessage conversationId userId role content md w = (Inr c', w')"
  shows "\<exists>c. given conversationId \<and> given userId \<and> given role \<and> given content
    \<and> conversations w (the conversationId) = Some c
    \<and> conv_id c = the conversationId \<and> conv_userId c = the userId \<and> conv_status c \<noteq> ''deleted''
    \<and> c' = c\<lparr>conv_messages := conv_messages c @
            [\<lparr>msg_role = the role, msg_content = the content, msg_metadata = typed role md,
              msg_timestamp = clock w (reads w)\<rparr>]\<rparr>
    \<and> w' = w\<lparr>db_ops := Suc (Suc (db_ops w)), reads := Suc (reads w),
               conversations := (conversations w)(the conversationId \<mapsto> c')\<rparr>"
proof -
  from assms have g: "given conversationId" "given userId" "given role" "given content"
    by (auto simp: addMessage_def io_defs split: if_splits)
  from assms g obtain c w1 where
    gc: "getConversation conversationId userId w = (Inr c, w1)"
    and am: "conversation_addMessage c (the role) (the content) (typed role md) w1 = (Inr c', w')"
    by (auto simp: addMessage_def io_defs Let_def typed_def split: prod.splits sum.splits if_splits)
  from getConversation_success [OF gc] conversation_addMessage_success [OF am] g
  show ?thesis by auto
qed

lemma addMessage_error:
  "addMessage conversationId userId role content md w = (Inl e, w') \<Longrightarrow> is_APIError e"
  by (auto simp: addMessage_def io_defs split: prod.splits sum.splits if_splits)

lemmas demo_defs = demo_world_def demo_runtime_def demo_options_def demo_conversation_def only_type_def

lemmas run_defs = processLegalQuery_def processLegalQuery_answer_def processLegalQuery_generate_def
  processLegalQuery_save_def analyzeIntent_def intent_request_def default_intent_def
  generateWithGoogleAI_def generateWithChatHistory_def modelNames_def send_def logger_warn_def
  Date_now_def brace_match_def mapIntentToMetadataType_def typeMap_def Object_prototype_def js_or_def
  prepareSystemMessage_def getConversation_def Conversation_findOne_def addMessage_def
  conversation_addMessage_def formatHistory_def extractReferences_def extractSuggestions_def
  new_Set_def or_empty_def split_lines_def actionVerbs_def trim_def is_space_def system_or_default_def

text \<open>
  C10. When \<^verbatim>\<open>addMessage\<close> succeeds, the conversation it returns is the stored one and
  its last message is the new one; if the metadata supplied has no type (or a falsy
  one), the stored metadata is the supplied one with the type set from the role,
  \<^verbatim>\<open>system\<close> for the role \<^verbatim>\<open>system\<close> and \<^verbatim>\<open>chat\<close> otherwise; if it has a type, it is stored
  as it is. Either way the stored message has a metadata type.
\<close>

theorem addMessage_default_type:
  assumes "addMessage conversationId userId role content md w = (Inr c', w')"
  shows "conv_messages c' \<noteq> []
    \<and> conversations w' (the conversationId) = Some c'
    \<and> msg_role (last (conv_messages c')) = the role
    \<and> msg_content (last (conv_messages c')) = the content
    \<and> (\<not> truthy (md_type md) \<longrightarrow>
          msg_metadata (last (conv_messages c'))
            = md\<lparr>md_type := JStr (if role = Some ''system'' then ''system'' else ''chat'')\<rparr>)
    \<and> (truthy (md_type md) \<longrightarrow> msg_metadata (last (conv_messages c')) = md)
    \<and> truthy (md_type (msg_metadata (last (conv_messages c'))))"
  using addMessage_success [OF assms]
  by (auto simp: typed_def)

theorem addMessage_default_type_witness:
  "map (\<lambda>m. (msg_role m, md_type (msg_metadata m)))
     (conv_messages (projr (fst (addMessage (Some ''c1'') (Some ''u1'') (Some ''user'') (Some ''Hello'')
        (only_type JUndefined) demo_world))))
   = [(''system'', JStr ''system''), (''user'', JStr ''chat'')]
   \<and> map_option (\<lambda>c. map (\<lambda>m. (msg_role m, md_type (msg_metadata m))) (conv_messages c))
       (conversations (snd (addMessage (Some ''c1'') (Some ''u1'') (Some ''system'') (Some ''Be brief.'')
          (only_type JUndefined) demo_world)) ''c1'')
     = Some [(''system'', JStr ''system''), (''system'', JStr ''system'')]"
proof -
  let ?r = "addMessage (Some ''c1'') (Some ''u1'') (Some ''user'') (Some ''Hello'') (only_type JUndefined) demo_world"
  let ?s = "addMessage (Some ''c1'') (Some ''u1'') (Some ''system'') (Some ''Be brief.'') (only_type JUndefined) demo_world"
  have r: "?r = (Inr (projr (fst ?r)), snd ?r)"
    by (simp add: run_defs demo_defs io_defs Let_def)
  have s: "?s = (Inr (projr (fst ?s)), snd ?s)"
    by (simp add: run_defs demo_defs io_defs Let_def)
  have u: "\<not> truthy (md_type (only_type JUndefined))"
    by (simp add: only_type_def)
  from addMessage_default_type [OF r] addMessage_default_type [OF s] u
  show ?thesis
    by (simp add: run_defs demo_defs io_defs Let_def)
qed







section \<open>Properties of the query orchestrator\<close>

text \<open>
  C7. With an empty or absent message \<^verbatim>\<open>processLegalQuery\<close> throws the validation error
  \<^verbatim>\<open>APIError('Message is required', 400)\<close> whatever the options are, and nothing but the
  clock has been touched: no call to the provider has been made.
\<close>

theorem processLegalQuery_requires_message:
  assumes "\<not> given message"
  shows "processLegalQuery rt message options w
           = (Inl (APIError ''Message is required'' BAD_REQUEST), w\<lparr>reads := Suc (reads w)\<rparr>)
         \<and> calls (snd (processLegalQuery rt message options w)) = calls w"
  using assms
  by (simp add: processLegalQuery_def processLegalQuery_answer_def io_defs Date_now_def)

theorem processLegalQuery_requires_message_witness:
  "\<not> given (Some []) \<and> \<not> given None
   \<and> fst (processLegalQuery demo_runtime (Some []) (demo_options (Some ''c1'') (Some ''u1'')) demo_world)
       = Inl (APIError ''Message is required'' BAD_REQUEST)
   \<and> calls (snd (processLegalQuery demo_runtime (Some []) (demo_options (Some ''c1'') (Some ''u1'')) demo_world)) = []
   \<and> fst (processLegalQuery demo_runtime None (demo_options None None) demo_world)
       = Inl (APIError ''Message is required'' BAD_REQUEST)
   \<and> calls (snd (processLegalQuery demo_runtime None (demo_options None None) demo_world)) = []"
  using processLegalQuery_requires_message [of "Some []" demo_runtime "demo_options (Some ''c1'') (Some ''u1'')" demo_world]
    processLegalQuery_requires_message [of None demo_runtime "demo_options None None" demo_world]
  by (simp add: demo_world_def)

lemma getConversation_not_found:
  assumes "given conversationId" "given userId" "db_fault w (db_ops w) = None"
    and "no_conversation (the conversationId) (the userId) w"
  shows "getConversation conversationId userId w
           = (Inl (APIError ''Conversation not found'' NOT_FOUND), w\<lparr>db_ops := Suc (db_ops w)\<rparr>)"
  using assms
  by (auto simp: getConversation_def Conversation_findOne_def io_defs no_conversation_def
      split: option.splits)

lemma processLegalQuery_generate_not_found:
  assumes "given conversationId" "given userId" "db_fault w (db_ops w) = None"
    and "no_conversation (the conversationId) (the userId) w"
  shows "\<exists>w'. processLegalQuery_generate message conversationId userId systemMessage startTime w
           = (Inl (APIError ''Error processing legal query: Conversation not found'' INTERNAL_SERVER_ERROR), w')"
  using assms
  by (simp add: processLegalQuery_generate_def io_defs getConversation_not_found)

lemma ToString_error:
  "ToString numstr v = Inl e \<Longrightarrow> \<not> is_APIError e"
  "join numstr vs = Inl e \<Longrightarrow> \<not> is_APIError e"
  by (induction numstr v and numstr vs arbitrary: e and e rule: ToString_join.induct)
    (auto split: if_splits sum.splits)

lemma mapIntentToMetadataType_error:
  "mapIntentToMetadataType numstr t = Inl e \<Longrightarrow> \<not> is_APIError e"
  by (auto simp: mapIntentToMetadataType_def split: sum.splits dest: ToString_error)

lemma prepareSystemMessage_error:
  "prepareSystemMessage numstr intent documentType t = Inl e \<Longrightarrow> \<not> is_APIError e"
  by (auto simp: prepareSystemMessage_def Let_def split: sum.splits if_splits dest: ToString_error)

text \<open>
  C1. With a message, a conversation id and a user id, when no conversation with that id
  is there for that user (absent, owned by another user, or soft-deleted) and the
  database read succeeds, \<^verbatim>\<open>processLegalQuery\<close> fails with an \<^verbatim>\<open>APIError\<close> of status 500:
  the \<^verbatim>\<open>APIError('Conversation not found', 404)\<close> of \<^verbatim>\<open>getConversation\<close> is caught by the
  inner \<^verbatim>\<open>catch\<close>, which wraps every error without looking at its class.
\<close>

theorem processLegalQuery_not_found_rewrapped:
  assumes "given message"
    and "given (opt_conversationId options)" "given (opt_userId options)"
    and "db_fault w (db_ops w) = None"
    and "no_conversation (the (opt_conversationId options)) (the (opt_userId options)) w"
  shows "\<exists>msg. fst (processLegalQuery rt message options w) = Inl (APIError msg INTERNAL_SERVER_ERROR)"
proof -
  let ?w0 = "w\<lparr>reads := Suc (reads w)\<rparr>"
  obtain intent w1 where a: "analyzeIntent (JSON_parse rt) (the message) ?w0 = (Inr intent, w1)"
    using analyzeIntent_returns by blast
  from analyzeIntent_store [OF a]
  have s: "conversations w1 = conversations w" "db_fault w1 = db_fault w" "db_ops w1 = db_ops w"
    by simp_all
  have nf: "db_fault w1 (db_ops w1) = None"
    "no_conversation (the (opt_conversationId options)) (the (opt_userId options)) w1"
    using assms s by (simp_all add: no_conversation_def)
  have g: "\<And>systemMessage startTime.
      \<exists>w2. processLegalQuery_generate (the message) (opt_conversationId options) (opt_userId options)
             systemMessage startTime w1
        = (Inl (APIError ''Error processing legal query: Conversation not found'' INTERNAL_SERVER_ERROR), w2)"
    using processLegalQuery_generate_not_found [OF assms(2,3) nf] by simp
  show ?thesis
  proof (cases "mapIntentToMetadataType (Number_toString rt) (intent_type intent)")
    case (Inl e)
    with assms(1) a mapIntentToMetadataType_error [OF Inl] show ?thesis
      by (simp add: processLegalQuery_def processLegalQuery_answer_def io_defs Date_now_def)
  next
    case mt: (Inr metadataType)
    show ?thesis
    proof (cases "prepareSystemMessage (Number_toString rt) intent
                    (opt_documentType options) (opt_tone options)")
      case (Inl e)
      with assms(1) a mt prepareSystemMessage_error [OF Inl] show ?thesis
        by (simp add: processLegalQuery_def processLegalQuery_answer_def io_defs Date_now_def)
    next
      case (Inr systemMessage)
      from g [of systemMessage "clock w (reads w)"] obtain w2 where
        "processLegalQuery_generate (the message) (opt_conversationId options) (opt_userId options)
           systemMessage (clock w (reads w)) w1
         = (Inl (APIError ''Error processing legal query: Conversation not found'' INTERNAL_SERVER_ERROR), w2)"
        by blast
      with assms(1) a mt Inr show ?thesis
        by (simp add: processLegalQuery_def processLegalQuery_answer_def io_defs Date_now_def)
    qed
  qed
qed

theorem processLegalQuery_not_found_rewrapped_witness:
  "fst (processLegalQuery demo_runtime (Some ''What is clause 4?'')
          (demo_options (Some ''c2'') (Some ''u1'')) demo_world)
     = Inl (APIError ''Error processing legal query: Conversation not found'' INTERNAL_SERVER_ERROR)
   \<and> fst (processLegalQuery demo_runtime (Some ''What is clause 4?'')
          (demo_options (Some ''c1'') (Some ''u2'')) demo_world)
     = Inl (APIError ''Error processing legal query: Conversation not found'' INTERNAL_SERVER_ERROR)
   \<and> fst (processLegalQuery demo_runtime (Some ''What is clause 4?'')
          (demo_options (Some ''c1'') (Some ''u1''))
          (demo_world\<lparr>conversations := [''c1'' \<mapsto> demo_conversation\<lparr>conv_status := ''deleted''\<rparr>]\<rparr>))
     = Inl (APIError ''Error processing legal query: Conversation not found'' INTERNAL_SERVER_ERROR)
   \<and> fst (getConversation (Some ''c2'') (Some ''u1'') demo_world)
     = Inl (APIError ''Conversation not found'' NOT_FOUND)"
proof -
  let ?o = "demo_options (Some ''c2'') (Some ''u1'')"
  have h1: "given (Some ''What is clause 4?'')"
    by simp
  have h2: "given (opt_conversationId ?o)" and h3: "given (opt_userId ?o)"
    by (simp_all add: demo_options_def)
  have h4: "db_fault demo_world (db_ops demo_world) = None"
    by (simp add: demo_world_def)
  have h5: "no_conversation (the (opt_conversationId ?o)) (the (opt_userId ?o)) demo_world"
    by (simp add: no_conversation_def demo_options_def demo_world_def)
  from processLegalQuery_not_found_rewrapped [OF h1 h2 h3 h4 h5, of demo_runtime]
  show ?thesis
    by (simp add: run_defs demo_defs io_defs Let_def)
qed

text \<open>
  C4. With a conversation id and a user id, once the answer has been generated: if
  appending the user's turn throws, \<^verbatim>\<open>processLegalQuery\<close> throws that same error; if the
  user's turn is appended and appending the assistant's turn throws, it throws that same
  error; and it returns the answer only when both turns were appended.
\<close>

theorem processLegalQuery_save_failure:
  assumes "given (opt_conversationId options)" "given (opt_userId options)"
    and "processLegalQuery_answer rt message options (clock w (reads w)) (w\<lparr>reads := Suc (reads w)\<rparr>)
           = (Inr (aiResponse, metadataType, metadata), w1)"
  shows "(\<forall>e w2. addMessage (opt_conversationId options) (opt_userId options) (Some ''user'') message
                   (only_type metadataType) w1 = (Inl e, w2)
            \<longrightarrow> processLegalQuery rt message options w = (Inl e, w2))
    \<and> (\<forall>c w2 e w3.
          addMessage (opt_conversationId options) (opt_userId options) (Some ''user'') message
            (only_type metadataType) w1 = (Inr c, w2)
          \<and> addMessage (opt_conversationId options) (opt_userId options) (Some ''assistant'')
              (Some aiResponse) metadata w2 = (Inl e, w3)
            \<longrightarrow> processLegalQuery rt message options w = (Inl e, w3))
    \<and> (\<forall>r w3. processLegalQuery rt message options w = (Inr r, w3)
            \<longrightarrow> r = \<lparr>ans_text = aiResponse, ans_metadata = metadata\<rparr>
              \<and> (\<exists>c w2 c'.
                    addMessage (opt_conversationId options) (opt_userId options) (Some ''user'') message
                      (only_type metadataType) w1 = (Inr c, w2)
                    \<and> addMessage (opt_conversationId options) (opt_userId options) (Some ''assistant'')
                        (Some aiResponse) metadata w2 = (Inr c', w3)))"
proof (intro conjI allI impI)
  fix e w2
  assume a: "addMessage (opt_conversationId options) (opt_userId options) (Some ''user'') message
                   (only_type metadataType) w1 = (Inl e, w2)"
  with assms addMessage_error [OF a] show "processLegalQuery rt message options w = (Inl e, w2)"
    by (simp add: processLegalQuery_def processLegalQuery_save_def io_defs Date_now_def)
next
  fix c w2 e w3
  assume a: "addMessage (opt_conversationId options) (opt_userId options) (Some ''user'') message
            (only_type metadataType) w1 = (Inr c, w2)
          \<and> addMessage (opt_conversationId options) (opt_userId options) (Some ''assistant'')
              (Some aiResponse) metadata w2 = (Inl e, w3)"
  then have "is_APIError e" using addMessage_error by blast
  with assms a show "processLegalQuery rt message options w = (Inl e, w3)"
    by (simp add: processLegalQuery_def processLegalQuery_save_def io_defs Date_now_def)
next
  fix r w3
  assume a: "processLegalQuery rt message options w = (Inr r, w3)"
  with assms show "r = \<lparr>ans_text = aiResponse, ans_metadata = metadata\<rparr>"
    by (auto simp: processLegalQuery_def processLegalQuery_save_def io_defs Date_now_def
        split: prod.splits sum.splits if_splits)
  from assms a show "\<exists>c w2 c'.
                    addMessage (opt_conversationId options) (opt_userId options) (Some ''user'') message
                      (only_type metadataType) w1 = (Inr c, w2)
                    \<and> addMessage (opt_conversationId options) (opt_userId options) (Some ''assistant'')
                        (Some aiResponse) metadata w2 = (Inr c', w3)"
    by (auto simp: processLegalQuery_def processLegalQuery_save_def io_defs Date_now_def
        split: prod.splits sum.splits if_splits)
qed

theorem processLegalQuery_save_failure_witness:
  "fst (processLegalQuery demo_runtime (Some ''What is clause 4?'') (demo_options (Some ''c1'') (Some ''u1''))
          (demo_world\<lparr>db_fault := (\<lambda>n. if n = 4 then Some ''write failed'' else None)\<rparr>))
     = Inl (APIError ''Error adding message: write failed'' INTERNAL_SERVER_ERROR)
   \<and> fst (processLegalQuery demo_runtime (Some ''What is clause 4?'') (demo_options (Some ''c1'') (Some ''u1''))
          (demo_world\<lparr>db_fault := (\<lambda>n. if n = 2 then Some ''write failed'' else None)\<rparr>))
     = Inl (APIError ''Error adding message: write failed'' INTERNAL_SERVER_ERROR)
   \<and> fst (processLegalQuery demo_runtime (Some ''What is clause 4?'') (demo_options (Some ''c1'') (Some ''u1''))
          demo_world)
     = Inr \<lparr>ans_text = ''Consider a notice period.'',
            ans_metadata = \<lparr>md_type = JStr ''chat'', md_documentType = None, md_tone = None,
              md_responseTime = Some 10, md_references = Some [],
              md_suggestions = Some [''Consider a notice period.''], md_provider = Some ''google''\<rparr>\<rparr>"
proof -
  let ?o = "demo_options (Some ''c1'') (Some ''u1'')"
  let ?w = "demo_world\<lparr>db_fault := (\<lambda>n. if n = 4 then Some ''write failed'' else None)\<rparr>"
  let ?a = "processLegalQuery_answer demo_runtime (Some ''What is clause 4?'') ?o (clock ?w (reads ?w))
              (?w\<lparr>reads := Suc (reads ?w)\<rparr>)"
  let ?md = "\<lparr>md_type = JStr ''chat'', md_documentType = None, md_tone = None,
              md_responseTime = Some 10, md_references = Some [],
              md_suggestions = Some [''Consider a notice period.''], md_provider = Some ''google''\<rparr>"
  have h1: "given (opt_conversationId ?o)" and h2: "given (opt_userId ?o)"
    by (simp_all add: demo_options_def)
  have h3: "?a = (Inr (''Consider a notice period.'', JStr ''chat'', ?md), snd ?a)"
    by (simp add: run_defs demo_defs io_defs Let_def)
  from processLegalQuery_save_failure [OF h1 h2 h3]
  show ?thesis
    by (simp add: run_defs demo_defs io_defs Let_def)
qed


end
